theory Spec2Isabelle
  imports Main "HOL-Library.Word" "HOL-Library.Sublist"
begin

section \<open>The skydns client (client/client.go)\<close>

text \<open>
  A shallow embedding of the Go package \<^verbatim>\<open>client\<close>. Go strings are byte strings and
  are modelled as \<^typ>\<open>string\<close>. A Go function either returns its results or panics, so
  every operation yields an \<open>outcome\<close>; a result pair \<^verbatim>\<open>(value, error)\<close> of which exactly
  one component is non-nil is a sum with \<open>Inl\<close> for the error. The network (HTTP round
  trips, DNS exchanges), \<^verbatim>\<open>encoding/json\<close> on the opaque records of package \<^verbatim>\<open>msg\<close> and
  \<^verbatim>\<open>http.NewRequest\<close> are outside the package and are taken as a parameter, the \<open>world\<close>.
\<close>

subsection \<open>Errors and panics\<close>

text \<open>Error values made outside the package: \<^verbatim>\<open>net.AddrError{Err, Addr}\<close> and any other
  library error, named by its message.\<close>

datatype ext_error = AddrError string string | ExtError string

text \<open>The four package-level sentinels (lines 16-21); any other error value a method
  returns was made by a library and is passed on.\<close>

datatype error =
    ErrNoHttpAddress
  | ErrInvalidResponse
  | ErrServiceNotFound
  | ErrConflictingUUID
  | External ext_error

datatype panic = SliceBoundsOutOfRange | NilPointerDereference

datatype 'a outcome = Panic panic | Return 'a

subsection \<open>Library functions used by the constructor\<close>

text \<open>Go's slice expression \<^verbatim>\<open>s[i:]\<close>: a run-time panic when \<open>i\<close> exceeds \<^verbatim>\<open>len(s)\<close>.\<close>

definition slice_from :: "string \<Rightarrow> nat \<Rightarrow> string outcome" where
  "slice_from s i = (if length s < i then Panic SliceBoundsOutOfRange else Return (drop i s))"

text \<open>\<^verbatim>\<open>bytealg.IndexByteString\<close> and \<^verbatim>\<open>bytealg.LastIndexByteString\<close>: the index of the first
  (last) occurrence of a byte, or \<open>-1\<close>.\<close>

fun IndexByteString :: "string \<Rightarrow> char \<Rightarrow> int" where
  "IndexByteString [] c = -1"
| "IndexByteString (x # xs) c =
     (if x = c then 0
      else (let r = IndexByteString xs c in if r < 0 then -1 else r + 1))"

definition LastIndexByteString :: "string \<Rightarrow> char \<Rightarrow> int" where
  "LastIndexByteString s c =
     (let r = IndexByteString (rev s) c in if r < 0 then -1 else int (length s) - 1 - r)"

definition addrErr :: "string \<Rightarrow> string \<Rightarrow> string \<times> string \<times> ext_error option" where
  "addrErr addr why = ([], [], Some (AddrError why addr))"

text \<open>\<^verbatim>\<open>net.SplitHostPort\<close> of the Go standard library (net/ipsock.go): the result triple
  \<^verbatim>\<open>(host, port, err)\<close>, with empty host and port beside an error.\<close>

definition SplitHostPort :: "string \<Rightarrow> string \<times> string \<times> ext_error option" where
  "SplitHostPort hostport =
     (let missingPort = ''missing port in address'';
          tooManyColons = ''too many colons in address'';
          i = LastIndexByteString hostport CHR '':'';
          finish = (\<lambda>host j k.
            if 0 \<le> IndexByteString (drop j hostport) CHR ''[''
            then addrErr hostport (''unexpected '' @ [CHR 0x27, CHR ''['', CHR 0x27] @ '' in address'')
            else if 0 \<le> IndexByteString (drop k hostport) CHR '']''
            then addrErr hostport (''unexpected '' @ [CHR 0x27, CHR '']'', CHR 0x27] @ '' in address'')
            else (host, drop (nat (i + 1)) hostport, None))
      in if i < 0 then addrErr hostport missingPort
         else if hostport ! 0 = CHR ''['' then
           (let end = IndexByteString hostport CHR '']''
            in if end < 0
               then addrErr hostport (''missing '' @ [CHR 0x27, CHR '']'', CHR 0x27] @ '' in address'')
               else if end + 1 = int (length hostport) then addrErr hostport missingPort
               else if end + 1 = i
               then finish (take (nat end - 1) (drop 1 hostport)) 1 (nat (end + 1))
               else if hostport ! nat (end + 1) = CHR '':''
               then addrErr hostport tooManyColons
               else addrErr hostport missingPort)
         else
           (let host = take (nat i) hostport
            in if 0 \<le> IndexByteString host CHR '':''
               then addrErr hostport tooManyColons
               else finish host 0 0))"

text \<open>\<^verbatim>\<open>net.JoinHostPort\<close>: a host with a colon is taken for a literal IPv6 address.\<close>

definition JoinHostPort :: "string \<Rightarrow> string \<Rightarrow> string" where
  "JoinHostPort host port =
     (if 0 \<le> IndexByteString host CHR '':'' then ''['' @ host @ '']:'' @ port
      else host @ '':'' @ port)"

text \<open>Decimal rendering of a natural number, and \<^verbatim>\<open>strconv.Itoa\<close> on Go's \<^verbatim>\<open>int\<close>
  (no arithmetic is done on the port, so no overflow is in play).\<close>

fun Itoa_nat :: "nat \<Rightarrow> string" where
  "Itoa_nat n = (if n < 10 then [''0123456789'' ! n]
                 else Itoa_nat (n div 10) @ [''0123456789'' ! (n mod 10)])"

declare Itoa_nat.simps [simp del]

definition Itoa :: "int \<Rightarrow> string" where
  "Itoa i = (if i < 0 then ''-'' @ Itoa_nat (nat (- i)) else Itoa_nat (nat i))"

text \<open>The width in bytes of the first rune of a string, as \<^verbatim>\<open>utf8.DecodeRuneInString\<close>
  reports it: 1 for an ASCII byte and for a byte that starts no well-formed encoding, else
  the length of the encoding (2 to 4).\<close>

definition DecodeRuneInString_size :: "string \<Rightarrow> nat" where
  "DecodeRuneInString_size s =
     (if s = [] then 0
      else
        (let s0 = (of_char (s ! 0) :: nat)
         in if s0 < 0x80 then 1
            else if s0 < 0xC2 \<or> 0xF4 < s0 then 1
            else
              (let sz = (if s0 < 0xE0 then 2 else if s0 < 0xF0 then 3 else (4::nat));
                   lo = (if s0 = 0xE0 then 0xA0 else if s0 = 0xF0 then 0x90 else (0x80::nat));
                   hi = (if s0 = 0xED then 0x9F else if s0 = 0xF4 then 0x8F else (0xBF::nat))
               in if length s < sz then 1
                  else if (of_char (s ! 1) :: nat) < lo \<or> hi < (of_char (s ! 1) :: nat) then 1
                  else if sz \<le> 2 then 2
                  else if (of_char (s ! 2) :: nat) < 0x80 \<or> 0xBF < (of_char (s ! 2) :: nat) then 1
                  else if sz \<le> 3 then 3
                  else if (of_char (s ! 3) :: nat) < 0x80 \<or> 0xBF < (of_char (s ! 3) :: nat) then 1
                  else 4)))"

text \<open>\<^verbatim>\<open>utf8.RuneStart\<close>: the byte is no continuation byte.\<close>

definition RuneStart :: "char \<Rightarrow> bool" where
  "RuneStart b = (\<not> (0x80 \<le> (of_char b :: nat) \<and> (of_char b :: nat) \<le> 0xBF))"

text \<open>The backward scan of \<^verbatim>\<open>utf8.DecodeLastRuneInString\<close> for the start of the last rune,
  from \<open>start\<close> down to \<open>lim\<close>.\<close>

function scan_back :: "string \<Rightarrow> int \<Rightarrow> int \<Rightarrow> int" where
  "scan_back s lim start =
     (if lim \<le> start
      then (if RuneStart (s ! nat start) then start else scan_back s lim (start - 1))
      else start)"
  by pat_completeness auto
termination
  by (relation "measure (\<lambda>(s, lim, start). nat (start - lim + 1))") auto

declare scan_back.simps [simp del]

text \<open>The width of the last rune of a string, as \<^verbatim>\<open>utf8.DecodeLastRuneInString\<close> reports
  it.\<close>

definition DecodeLastRuneInString_size :: "string \<Rightarrow> nat" where
  "DecodeLastRuneInString_size s =
     (let end = int (length s)
      in if end = 0 then 0
         else if (of_char (s ! nat (end - 1)) :: nat) < 0x80 then 1
         else
           (let lim = (if end - 4 < 0 then 0 else end - 4);
                start0 = scan_back s lim (end - 2);
                start = (if start0 < 0 then 0 else start0);
                size = DecodeRuneInString_size (drop (nat start) s)
            in if start + int size \<noteq> end then 1 else size))"

text \<open>\<^verbatim>\<open>strings.LastIndexFunc\<close> with the predicate "the rune is not a backslash", on the
  first \<open>i\<close> bytes of the string: the byte index of the last rune that is no backslash, or
  \<open>-1\<close>. A rune is a backslash exactly when its last byte is, and it is then one byte
  wide.\<close>

fun LastIndexFunc_no_backslash :: "string \<Rightarrow> nat \<Rightarrow> int" where
  "LastIndexFunc_no_backslash s i =
     (if 0 < i then
        (if s ! (i - 1) = CHR 0x5C then LastIndexFunc_no_backslash s (i - 1)
         else int i - int (DecodeLastRuneInString_size (take i s)))
      else -1)"

declare LastIndexFunc_no_backslash.simps [simp del]

text \<open>\<^verbatim>\<open>dns.IsFqdn\<close> and \<^verbatim>\<open>dns.Fqdn\<close> of github.com/miekg/dns: a name is fully qualified
  when it ends in a dot that is not escaped, which the library decides by the parity of
  the distance from the last rune that is no backslash to the final dot.\<close>

definition IsFqdn :: "string \<Rightarrow> bool" where
  "IsFqdn s =
     (if s = [] \<or> s ! (length s - 1) \<noteq> CHR ''.'' then False
      else
        (let t = take (length s - 1) s
         in if t = [] \<or> t ! (length t - 1) \<noteq> CHR 0x5C then True
            else (int (length t) - LastIndexFunc_no_backslash t (length t)) mod 2 \<noteq> 0))"

definition Fqdn :: "string \<Rightarrow> string" where
  "Fqdn s = (if IsFqdn s then s else s @ ''.'')"

subsection \<open>The client handle and its constructor\<close>

text \<open>The struct \<^verbatim>\<open>Client\<close> (lines 24-31). Its fields \<^verbatim>\<open>h\<close> and \<^verbatim>\<open>d\<close> are the zero-valued
  \<^verbatim>\<open>http.Client\<close> and \<^verbatim>\<open>dns.Client\<close>; they hold no configuration, and what they do on the
  network is the \<open>world\<close> below.\<close>

record Client =
  base :: string
  secret :: string
  basedns :: string
  domain :: string

text \<open>\<^verbatim>\<open>NewClient\<close> (lines 38-58). The error of \<^verbatim>\<open>net.SplitHostPort\<close> is bound and not
  acted upon. The argument of \<^verbatim>\<open>SplitHostPort\<close> is \<^verbatim>\<open>base[6:]\<close>.\<close>

definition NewClient :: "string \<Rightarrow> string \<Rightarrow> string \<Rightarrow> int \<Rightarrow> (error + Client) outcome" where
  "NewClient base0 secret0 dnsdomain dnsport0 =
     (if base0 = [] then Return (Inl ErrNoHttpAddress)
      else
        (let dnsport = (if dnsport0 = 0 then 53 else dnsport0)
         in case slice_from base0 6 of
              Panic p \<Rightarrow> Panic p
            | Return hostport \<Rightarrow>
                (case SplitHostPort hostport of
                   (host, _, err) \<Rightarrow>
                     Return (Inr \<lparr> base = base0,
                                   secret = secret0,
                                   basedns = JoinHostPort host (Itoa dnsport),
                                   domain = ''.'' @ Fqdn dnsdomain \<rparr>))))"

subsection \<open>Requests, responses and the world outside the package\<close>

text \<open>What the methods touch of \<^verbatim>\<open>http.Request\<close> and \<^verbatim>\<open>http.Response\<close>. A header is the
  list of its key-value entries in the order they were added; a body is \<open>None\<close> when the
  Go value is nil.\<close>

record Request =
  Method :: string
  URL :: string
  Header :: "(string \<times> string) list"
  ReqBody :: "string option"

record Response =
  StatusCode :: int
  Body :: "string option"

text \<open>What \<^verbatim>\<open>SetQuestion\<close> sets of a \<^verbatim>\<open>dns.Msg\<close>, and the answer section of a reply (resource
  records left opaque).\<close>

record Question =
  Name :: string
  Qtype :: "16 word"
  Qclass :: "16 word"

record dns_Msg =
  MsgId :: "16 word"
  RecursionDesired :: bool
  Questions :: "Question list"
  Answer :: "string list"

type_synonym NameCount = "string \<rightharpoonup> int"

text \<open>The collaborators of the package. \<open>'svc\<close> and \<open>'cb\<close> are \<^verbatim>\<open>msg.Service\<close> and
  \<^verbatim>\<open>msg.Callback\<close>; a pointer to one is an option. Each fallible call yields either its
  library's error or its value: \<^verbatim>\<open>http.NewRequest\<close> and \<^verbatim>\<open>Client.Do\<close> return a nil request
  (response) beside a non-nil error.\<close>

record ('svc, 'cb) world =
  EncodeService :: "'svc option \<Rightarrow> ext_error + string"
  EncodeCallback :: "'cb option \<Rightarrow> ext_error + string"
  DecodeService :: "string \<Rightarrow> ext_error + 'svc option"
  http_NewRequest :: "string \<Rightarrow> string \<Rightarrow> string option \<Rightarrow> ext_error + Request"
  Do :: "Request \<Rightarrow> ext_error + Response"
  dns_Id :: "16 word"
  Exchange :: "dns_Msg \<Rightarrow> string \<Rightarrow> ext_error + dns_Msg"

definition StatusOK :: int where "StatusOK = 200"
definition StatusCreated :: int where "StatusCreated = 201"
definition StatusNotFound :: int where "StatusNotFound = 404"
definition StatusConflict :: int where "StatusConflict = 409"

definition TypeSRV :: "16 word" where "TypeSRV = 33"
definition ClassINET :: "16 word" where "ClassINET = 1"

subsection \<open>Request builders\<close>

text \<open>\<^verbatim>\<open>joinUrl\<close> (lines 247-249).\<close>

definition joinUrl :: "Client \<Rightarrow> string \<Rightarrow> string" where
  "joinUrl c uuid = base c @ ''/skydns/services/'' @ uuid"

text \<open>\<^verbatim>\<open>Header.Add\<close> appends the value to the entries of the key.\<close>

definition Header_Add :: "string \<Rightarrow> string \<Rightarrow> Request \<Rightarrow> Request" where
  "Header_Add k v req = req \<lparr> Header := Header req @ [(k, v)] \<rparr>"

text \<open>\<^verbatim>\<open>newRequest\<close> (lines 251-257). The secret is tested, and the header of \<^verbatim>\<open>req\<close>
  written, before \<^verbatim>\<open>err\<close> is looked at: with a nil \<^verbatim>\<open>req\<close> the selector \<^verbatim>\<open>req.Header\<close>
  dereferences a nil pointer.\<close>

definition newRequest ::
  "('svc, 'cb) world \<Rightarrow> Client \<Rightarrow> string \<Rightarrow> string \<Rightarrow> string option
     \<Rightarrow> (ext_error + Request) outcome" where
  "newRequest w c method url body =
     (let r = http_NewRequest w method url body
      in if secret c \<noteq> [] then
           (case r of
              Inl err \<Rightarrow> Panic NilPointerDereference
            | Inr req \<Rightarrow> Return (Inr (Header_Add ''Authorization'' (secret c) req)))
         else Return r)"

text \<open>\<^verbatim>\<open>newRequestDNS\<close> (lines 259-263), with \<^verbatim>\<open>SetQuestion\<close> of github.com/miekg/dns
  written out; the message id is drawn by the library.\<close>

definition newRequestDNS ::
  "('svc, 'cb) world \<Rightarrow> string \<Rightarrow> 16 word \<Rightarrow> ext_error + dns_Msg" where
  "newRequestDNS w qname qtype =
     Inr \<lparr> MsgId = dns_Id w,
           RecursionDesired = True,
           Questions = [\<lparr> Name = qname, Qtype = qtype, Qclass = ClassINET \<rparr>],
           Answer = [] \<rparr>"

subsection \<open>Control-plane operations\<close>

text \<open>\<^verbatim>\<open>Add\<close> (lines 60-85). The result is the returned \<^verbatim>\<open>error\<close>, \<open>None\<close> for nil.\<close>

definition Add ::
  "('svc, 'cb) world \<Rightarrow> Client \<Rightarrow> string \<Rightarrow> 'svc option \<Rightarrow> error option outcome" where
  "Add w c uuid s =
     (case EncodeService w s of
        Inl err \<Rightarrow> Return (Some (External err))
      | Inr b \<Rightarrow>
          (case newRequest w c ''PUT'' (joinUrl c uuid) (Some b) of
             Panic p \<Rightarrow> Panic p
           | Return (Inl err) \<Rightarrow> Return (Some (External err))
           | Return (Inr req) \<Rightarrow>
               (case Do w req of
                  Inl err \<Rightarrow> Return (Some (External err))
                | Inr resp \<Rightarrow>
                    (if StatusCode resp = StatusCreated then Return None
                     else if StatusCode resp = StatusConflict
                     then Return (Some ErrConflictingUUID)
                     else Return (Some ErrInvalidResponse)))))"

text \<open>\<^verbatim>\<open>Delete\<close> (lines 87-100).\<close>

definition Delete ::
  "('svc, 'cb) world \<Rightarrow> Client \<Rightarrow> string \<Rightarrow> error option outcome" where
  "Delete w c uuid =
     (case newRequest w c ''DELETE'' (joinUrl c uuid) None of
        Panic p \<Rightarrow> Panic p
      | Return (Inl err) \<Rightarrow> Return (Some (External err))
      | Return (Inr req) \<Rightarrow>
          (case Do w req of
             Inl err \<Rightarrow> Return (Some (External err))
           | Inr resp \<Rightarrow> Return None))"

text \<open>\<^verbatim>\<open>Get\<close> (lines 102-128). Decoding reads \<^verbatim>\<open>resp.Body\<close>; a nil body makes the decoder
  call a method of a nil reader.\<close>

definition Get ::
  "('svc, 'cb) world \<Rightarrow> Client \<Rightarrow> string \<Rightarrow> (error + 'svc option) outcome" where
  "Get w c uuid =
     (case newRequest w c ''GET'' (joinUrl c uuid) None of
        Panic p \<Rightarrow> Panic p
      | Return (Inl err) \<Rightarrow> Return (Inl (External err))
      | Return (Inr req) \<Rightarrow>
          (case Do w req of
             Inl err \<Rightarrow> Return (Inl (External err))
           | Inr resp \<Rightarrow>
               (if StatusCode resp = StatusOK then
                  (case Body resp of
                     None \<Rightarrow> Panic NilPointerDereference
                   | Some b \<Rightarrow>
                       (case DecodeService w b of
                          Inl err \<Rightarrow> Return (Inl (External err))
                        | Inr s \<Rightarrow> Return (Inr s)))
                else if StatusCode resp = StatusNotFound
                then Return (Inl ErrServiceNotFound)
                else Return (Inl ErrInvalidResponse))))"

text \<open>\<^verbatim>\<open>Update\<close> (lines 130-144); \<^verbatim>\<open>ttl\<close> is a \<^verbatim>\<open>uint32\<close>, printed by \<^verbatim>\<open>%d\<close> in decimal.\<close>

definition Update ::
  "('svc, 'cb) world \<Rightarrow> Client \<Rightarrow> string \<Rightarrow> 32 word \<Rightarrow> error option outcome" where
  "Update w c uuid ttl =
     (let b = ''{\"TTL\":'' @ Itoa_nat (unat ttl) @ ''}''
      in case newRequest w c ''PATCH'' (joinUrl c uuid) (Some b) of
           Panic p \<Rightarrow> Panic p
         | Return (Inl err) \<Rightarrow> Return (Some (External err))
         | Return (Inr req) \<Rightarrow>
             (case Do w req of
                Inl err \<Rightarrow> Return (Some (External err))
              | Inr resp \<Rightarrow> Return None))"

text \<open>\<^verbatim>\<open>AddCallback\<close> (lines 220-245).\<close>

definition AddCallback ::
  "('svc, 'cb) world \<Rightarrow> Client \<Rightarrow> string \<Rightarrow> 'cb option \<Rightarrow> error option outcome" where
  "AddCallback w c uuid cb =
     (case EncodeCallback w cb of
        Inl err \<Rightarrow> Return (Some (External err))
      | Inr buf \<Rightarrow>
          (case newRequest w c ''PUT'' (base c @ ''/skydns/callbacks/'' @ uuid) (Some buf) of
             Panic p \<Rightarrow> Panic p
           | Return (Inl err) \<Rightarrow> Return (Some (External err))
           | Return (Inr req) \<Rightarrow>
               (case Do w req of
                  Inl err \<Rightarrow> Return (Some (External err))
                | Inr resp \<Rightarrow>
                    (if StatusCode resp = StatusCreated then Return None
                     else if StatusCode resp = StatusNotFound
                     then Return (Some ErrServiceNotFound)
                     else Return (Some ErrInvalidResponse)))))"

subsection \<open>The data-plane operation\<close>

text \<open>\<^verbatim>\<open>GetRegionsDNS\<close> (lines 185-198): \<^verbatim>\<open>out\<close> is declared and returned as it is, the nil
  map, which holds no key; \<^verbatim>\<open>resp\<close> is assigned to itself and not read.\<close>

definition GetRegionsDNS ::
  "('svc, 'cb) world \<Rightarrow> Client \<Rightarrow> (error + NameCount) outcome" where
  "GetRegionsDNS w c =
     (case newRequestDNS w ''regions'' TypeSRV of
        Inl err \<Rightarrow> Return (Inl (External err))
      | Inr req \<Rightarrow>
          (case Exchange w req (basedns c) of
             Inl err \<Rightarrow> Return (Inl (External err))
           | Inr resp \<Rightarrow> Return (Inr Map.empty)))"

subsection \<open>A concrete world\<close>

text \<open>A world in which the operations can be evaluated: services and callbacks are their
  own JSON text, request construction rejects a URL with a percent sign, and the server
  answers every request with one status and one body.\<close>

definition json_of :: "string option \<Rightarrow> string" where
  "json_of p = (case p of None \<Rightarrow> ''null'' | Some x \<Rightarrow> x)"

definition parse_json :: "string \<Rightarrow> ext_error + string option" where
  "parse_json b =
     (if b = ''null'' then Inr None
      else if b \<noteq> [] \<and> b ! 0 = CHR ''{'' then Inr (Some b)
      else Inl (ExtError ''invalid character''))"

definition answering :: "int \<Rightarrow> string \<Rightarrow> (string, string) world" where
  "answering status body =
     \<lparr> EncodeService = (\<lambda>s. Inr (json_of s)),
       EncodeCallback = (\<lambda>cb. Inr (json_of cb)),
       DecodeService = parse_json,
       http_NewRequest = (\<lambda>method url b.
          if 0 \<le> IndexByteString url CHR ''%'' then Inl (ExtError ''invalid URL escape'')
          else Inr \<lparr> Method = method, URL = url, Header = [], ReqBody = b \<rparr>),
       Do = (\<lambda>req. Inr \<lparr> StatusCode = status, Body = Some body \<rparr>),
       dns_Id = 7,
       Exchange = (\<lambda>m addr. Inr (m \<lparr> Answer := [body] \<rparr>)) \<rparr>"

definition sky :: Client where
  "sky = \<lparr> base = ''http://10.0.0.1:8080'', secret = ''key'',
           basedns = ''/10.0.0.1:53'', domain = ''.skydns.local.'' \<rparr>"

section \<open>Properties\<close>

subsection \<open>Auxiliary facts\<close>

lemmas world_simps = answering_def json_of_def parse_json_def sky_def newRequest_def
  joinUrl_def Header_Add_def

lemma JoinHostPort_suffix: "suffix ('':'' @ port) (JoinHostPort host port)"
proof (cases "0 \<le> IndexByteString host CHR '':''")
  case True
  then have "JoinHostPort host port = (''['' @ host @ '']'') @ '':'' @ port"
    by (simp add: JoinHostPort_def)
  then show ?thesis
    by (metis suffixI)
next
  case False
  then have "JoinHostPort host port = host @ '':'' @ port"
    by (simp add: JoinHostPort_def)
  then show ?thesis
    by (metis suffixI)
qed

lemma slice_from_long: "i \<le> length s \<Longrightarrow> slice_from s i = Return (drop i s)"
  by (simp add: slice_from_def)

lemma Itoa_53: "Itoa 53 = ''53''"
  by (simp add: Itoa_def Itoa_nat.simps)

lemma SplitHostPort_scenario: "SplitHostPort ''/10.0.0.1:8080'' = (''/10.0.0.1'', ''8080'', None)"
  by (simp add: SplitHostPort_def LastIndexByteString_def addrErr_def Let_def)

lemma SplitHostPort_no_port:
  "SplitHostPort ''/10.0.0.1'' = ([], [], Some (AddrError ''missing port in address'' ''/10.0.0.1''))"
  by (simp add: SplitHostPort_def LastIndexByteString_def addrErr_def Let_def)

subsection \<open>Construction\<close>

text \<open>C1: the scenario \<^verbatim>\<open>NewClient("http://10.0.0.1:8080", secret, "skydns.local", 0)\<close>.
  Construction succeeds and the domain suffix is \<^verbatim>\<open>.skydns.local.\<close>, but the address
  parsed is \<^verbatim>\<open>base[6:]\<close>, which keeps the last slash of the seven-byte prefix
  \<^verbatim>\<open>http://\<close>: the derived DNS server address is \<^verbatim>\<open>/10.0.0.1:53\<close>, not
  \<^verbatim>\<open>10.0.0.1:53\<close>.\<close>

theorem NewClient_scenario_address:
  "NewClient ''http://10.0.0.1:8080'' secret0 ''skydns.local'' 0 =
     Return (Inr \<lparr> base = ''http://10.0.0.1:8080'', secret = secret0,
                   basedns = ''/10.0.0.1:53'', domain = ''.skydns.local.'' \<rparr>)"
  by (simp add: NewClient_def slice_from_def SplitHostPort_scenario JoinHostPort_def Itoa_53
      Fqdn_def IsFqdn_def)

text \<open>C2, as stated, promises a derived DNS address on port 53 for every non-empty base
  address when the port is 0. At the three-byte base \<^verbatim>\<open>abc\<close> the slice \<^verbatim>\<open>base[6:]\<close> is out
  of range and the constructor panics: no handle and no address come back.\<close>

theorem NewClient_short_base_counterexample:
  "''abc'' \<noteq> [] \<and> NewClient ''abc'' [] ''skydns.local'' 0 = Panic SliceBoundsOutOfRange"
  by (simp add: NewClient_def slice_from_def)

text \<open>C2, amended: \<^verbatim>\<open>NewClient\<close> returns the no-address sentinel exactly when the base
  address is empty; for every base address of at least 6 bytes it returns a handle, and
  when the port argument is 0 the handle's DNS server address ends in \<^verbatim>\<open>:53\<close>.\<close>

theorem NewClient_no_address_default_port:
  "(NewClient b s d p = Return (Inl ErrNoHttpAddress)) = (b = [])
   \<and> (6 \<le> length b \<longrightarrow>
        (\<exists>c. NewClient b s d p = Return (Inr c) \<and> (p = 0 \<longrightarrow> suffix '':53'' (basedns c))))"
proof (intro conjI impI)
  show "(NewClient b s d p = Return (Inl ErrNoHttpAddress)) = (b = [])"
    by (simp add: NewClient_def slice_from_def split: prod.splits)
next
  assume len: "6 \<le> length b"
  then have ne: "b \<noteq> []" by auto
  obtain h pt e where sp: "SplitHostPort (drop 6 b) = (h, pt, e)"
    by (cases "SplitHostPort (drop 6 b)") auto
  let ?c = "\<lparr> base = b, secret = s,
              basedns = JoinHostPort h (Itoa (if p = 0 then 53 else p)),
              domain = ''.'' @ Fqdn d \<rparr>"
  have "NewClient b s d p = Return (Inr ?c)"
    using ne sp slice_from_long [OF len] by (simp add: NewClient_def)
  moreover have "p = 0 \<longrightarrow> suffix '':53'' (basedns ?c)"
    using JoinHostPort_suffix [of "''53''" h] by (simp add: Itoa_53)
  ultimately show "\<exists>c. NewClient b s d p = Return (Inr c) \<and> (p = 0 \<longrightarrow> suffix '':53'' (basedns c))"
    by blast
qed

theorem NewClient_no_address_default_port_witness:
  "NewClient [] ''key'' ''skydns.local'' 0 = Return (Inl ErrNoHttpAddress)
   \<and> (6::nat) \<le> length ''http://10.0.0.1:8080''
   \<and> (\<exists>c. NewClient ''http://10.0.0.1:8080'' ''key'' ''skydns.local'' 0 = Return (Inr c)
          \<and> suffix '':53'' (basedns c))"
  using NewClient_no_address_default_port [of "[]" "''key''" "''skydns.local''" 0]
    NewClient_no_address_default_port [of "''http://10.0.0.1:8080''" "''key''" "''skydns.local''" 0]
  by simp

text \<open>C8, as stated, promises a handle for every non-empty base address whose host:port
  component cannot be parsed. The five-byte base \<^verbatim>\<open>ws://\<close> is non-empty and holds no
  host:port at all, yet the constructor does not succeed there: \<^verbatim>\<open>base[6:]\<close> is out of range
  and it panics before \<^verbatim>\<open>net.SplitHostPort\<close> is called.\<close>

theorem NewClient_no_hostport_counterexample:
  "''ws://'' \<noteq> [] \<and> NewClient ''ws://'' ''key'' ''skydns.local'' 0 = Panic SliceBoundsOutOfRange"
  by (simp add: NewClient_def slice_from_def)

text \<open>C8, amended: for every base address of at least 6 bytes whose host:port component
  \<^verbatim>\<open>base[6:]\<close> is rejected by \<^verbatim>\<open>net.SplitHostPort\<close>, construction still returns a handle and
  a nil error; the parse error is dropped, and the DNS server address of the handle is
  built from the host returned beside that error.\<close>

theorem NewClient_discards_parse_error:
  assumes "6 \<le> length b"
    and "SplitHostPort (drop 6 b) = (host, port, Some err)"
  shows "\<exists>c. NewClient b s d p = Return (Inr c) \<and> base c = b \<and> secret c = s
     \<and> basedns c = JoinHostPort host (Itoa (if p = 0 then 53 else p))"
proof -
  from assms(1) have ne: "b \<noteq> []"
    by auto
  have sl: "slice_from b 6 = Return (drop 6 b)"
    using assms(1) by (rule slice_from_long)
  have "NewClient b s d p =
     Return (Inr \<lparr> base = b, secret = s,
                   basedns = JoinHostPort host (Itoa (if p = 0 then 53 else p)),
                   domain = ''.'' @ Fqdn d \<rparr>)"
    using ne sl assms(2) by (simp add: NewClient_def)
  then show ?thesis
    by simp
qed

theorem NewClient_discards_parse_error_witness:
  "(6::nat) \<le> length ''http://10.0.0.1''
   \<and> SplitHostPort (drop 6 ''http://10.0.0.1'')
        = ([], [], Some (AddrError ''missing port in address'' ''/10.0.0.1''))
   \<and> (\<exists>c. NewClient ''http://10.0.0.1'' ''key'' ''skydns.local'' 0 = Return (Inr c)
          \<and> base c = ''http://10.0.0.1'' \<and> secret c = ''key'' \<and> basedns c = '':53'')"
proof -
  have len: "(6::nat) \<le> length ''http://10.0.0.1''"
    by simp
  have sp: "SplitHostPort (drop 6 ''http://10.0.0.1'')
      = ([], [], Some (AddrError ''missing port in address'' ''/10.0.0.1''))"
    using SplitHostPort_no_port by simp
  have join: "JoinHostPort [] (Itoa (if (0::int) = 0 then 53 else 0)) = '':53''"
    by (simp add: JoinHostPort_def Itoa_53)
  show ?thesis
    using NewClient_discards_parse_error [OF len sp, of "''key''" "''skydns.local''" 0] len sp
    unfolding join by blast
qed

text \<open>C10: for a base address that is non-empty and shorter than 6 bytes the constructor
  does not return: slicing \<^verbatim>\<open>base[6:]\<close> panics, and neither a handle nor an error value is
  produced.\<close>

theorem NewClient_short_base_panics:
  "b \<noteq> [] \<Longrightarrow> length b < 6 \<Longrightarrow> NewClient b s d p = Panic SliceBoundsOutOfRange"
  by (simp add: NewClient_def slice_from_def)

theorem NewClient_short_base_panics_witness:
  "''http:'' \<noteq> [] \<and> length ''http:'' < 6
   \<and> NewClient ''http:'' ''key'' ''skydns.local'' 53 = Panic SliceBoundsOutOfRange"
  using NewClient_short_base_panics [of "''http:''" "''key''" "''skydns.local''" 53]
  by simp

subsection \<open>Status mapping of the control-plane operations\<close>

text \<open>C3: when the record is encoded, the request is built and the round trip yields a
  response, the result of \<^verbatim>\<open>Add\<close> depends on the status code alone: 201 gives nil, 409
  the conflicting-UUID sentinel, any other status the invalid-response sentinel.\<close>

theorem Add_status_mapping:
  assumes "EncodeService w s = Inr b"
    and "newRequest w c ''PUT'' (joinUrl c uuid) (Some b) = Return (Inr req)"
    and "Do w req = Inr resp"
  shows "Add w c uuid s =
     Return (if StatusCode resp = 201 then None
             else if StatusCode resp = 409 then Some ErrConflictingUUID
             else Some ErrInvalidResponse)"
  using assms by (simp add: Add_def StatusCreated_def StatusConflict_def)

theorem Add_status_mapping_witness:
  "Add (answering 201 []) sky ''u1'' (Some ''{}'') = Return None
   \<and> Add (answering 409 []) sky ''u1'' (Some ''{}'') = Return (Some ErrConflictingUUID)
   \<and> Add (answering 500 []) sky ''u1'' (Some ''{}'') = Return (Some ErrInvalidResponse)"
proof -
  let ?req = "\<lparr> Method = ''PUT'', URL = ''http://10.0.0.1:8080/skydns/services/u1'',
                Header = [(''Authorization'', ''key'')], ReqBody = Some ''{}'' \<rparr>"
  have enc: "EncodeService (answering n []) (Some ''{}'') = Inr ''{}''" for n
    by (simp add: world_simps)
  have rq: "newRequest (answering n []) sky ''PUT'' (joinUrl sky ''u1'') (Some ''{}'')
      = Return (Inr ?req)" for n
    by (simp add: world_simps)
  have rt: "Do (answering n []) ?req = Inr \<lparr> StatusCode = n, Body = Some [] \<rparr>" for n
    by (simp add: world_simps)
  show ?thesis
    using Add_status_mapping [OF enc rq rt, of 201] Add_status_mapping [OF enc rq rt, of 409]
      Add_status_mapping [OF enc rq rt, of 500]
    by simp
qed

text \<open>C4: when the round trip of \<^verbatim>\<open>Get\<close> yields a response, status 200 with a body that
  decodes returns the decoded record; status 404 returns the service-not-found sentinel;
  any other status returns the invalid-response sentinel; and status 200 with a body that
  does not decode returns the decoder's error, which is none of the four sentinels.\<close>

theorem Get_status_mapping:
  assumes "newRequest w c ''GET'' (joinUrl c uuid) None = Return (Inr req)"
    and "Do w req = Inr resp"
  shows "(StatusCode resp = 200 \<and> Body resp = Some b \<and> DecodeService w b = Inr s
            \<longrightarrow> Get w c uuid = Return (Inr s))
       \<and> (StatusCode resp = 404 \<longrightarrow> Get w c uuid = Return (Inl ErrServiceNotFound))
       \<and> (StatusCode resp \<noteq> 200 \<and> StatusCode resp \<noteq> 404
            \<longrightarrow> Get w c uuid = Return (Inl ErrInvalidResponse))
       \<and> (StatusCode resp = 200 \<and> Body resp = Some b \<and> DecodeService w b = Inl e
            \<longrightarrow> Get w c uuid = Return (Inl (External e))
              \<and> External e \<noteq> ErrNoHttpAddress \<and> External e \<noteq> ErrInvalidResponse
              \<and> External e \<noteq> ErrServiceNotFound \<and> External e \<noteq> ErrConflictingUUID)"
  using assms by (simp add: Get_def StatusOK_def StatusNotFound_def)

theorem Get_status_mapping_witness:
  "Get (answering 200 ''{\"Name\":\"web\"}'') sky ''u1'' = Return (Inr (Some ''{\"Name\":\"web\"}''))
   \<and> Get (answering 404 []) sky ''u1'' = Return (Inl ErrServiceNotFound)
   \<and> Get (answering 500 []) sky ''u1'' = Return (Inl ErrInvalidResponse)
   \<and> Get (answering 200 ''<html>'') sky ''u1''
        = Return (Inl (External (ExtError ''invalid character'')))"
proof -
  let ?req = "\<lparr> Method = ''GET'', URL = ''http://10.0.0.1:8080/skydns/services/u1'',
                Header = [(''Authorization'', ''key'')], ReqBody = None \<rparr>"
  have rq: "newRequest (answering n body) sky ''GET'' (joinUrl sky ''u1'') None
      = Return (Inr ?req)" for n body
    by (simp add: world_simps)
  have rt: "Do (answering n body) ?req = Inr \<lparr> StatusCode = n, Body = Some body \<rparr>" for n body
    by (simp add: world_simps)
  have ok: "DecodeService (answering 200 ''{\"Name\":\"web\"}'') ''{\"Name\":\"web\"}''
      = Inr (Some ''{\"Name\":\"web\"}'')"
    by (simp add: world_simps)
  have bad: "DecodeService (answering 200 ''<html>'') ''<html>''
      = Inl (ExtError ''invalid character'')"
    by (simp add: world_simps)
  show ?thesis
    using Get_status_mapping [OF rq rt, of 200 "''{\"Name\":\"web\"}''" "''{\"Name\":\"web\"}''"
        "Some ''{\"Name\":\"web\"}''"]
      Get_status_mapping [OF rq rt, of 404 "[]"]
      Get_status_mapping [OF rq rt, of 500 "[]"]
      Get_status_mapping [OF rq rt, of 200 "''<html>''" "''<html>''" _ "ExtError ''invalid character''"]
      ok bad
    by simp
qed

text \<open>C5: when the round trip of \<^verbatim>\<open>Delete\<close>, or of \<^verbatim>\<open>Update\<close>, yields a response, the
  operation returns nil whatever the status code of that response is.\<close>

theorem Delete_Update_ignore_status:
  "(newRequest w c ''DELETE'' (joinUrl c uuid) None = Return (Inr req) \<and> Do w req = Inr resp
      \<longrightarrow> Delete w c uuid = Return None)
   \<and> (newRequest w c ''PATCH'' (joinUrl c uuid) (Some (''{\"TTL\":'' @ Itoa_nat (unat ttl) @ ''}''))
          = Return (Inr req') \<and> Do w req' = Inr resp'
      \<longrightarrow> Update w c uuid ttl = Return None)"
  by (simp add: Delete_def Update_def)

theorem Delete_Update_ignore_status_witness:
  "Delete (answering 404 []) sky ''u1'' = Return None
   \<and> Update (answering 500 []) sky ''u1'' 30 = Return None"
proof -
  let ?del = "\<lparr> Method = ''DELETE'', URL = ''http://10.0.0.1:8080/skydns/services/u1'',
                Header = [(''Authorization'', ''key'')], ReqBody = None \<rparr>"
  let ?upd = "\<lparr> Method = ''PATCH'', URL = ''http://10.0.0.1:8080/skydns/services/u1'',
                Header = [(''Authorization'', ''key'')], ReqBody = Some ''{\"TTL\":30}'' \<rparr>"
  have ttl: "''{\"TTL\":'' @ Itoa_nat (unat (30 :: 32 word)) @ ''}'' = ''{\"TTL\":30}''"
    by (simp add: Itoa_nat.simps)
  have d1: "newRequest (answering 404 []) sky ''DELETE'' (joinUrl sky ''u1'') None
      = Return (Inr ?del)"
    by (simp add: world_simps)
  have d2: "Do (answering 404 []) ?del = Inr \<lparr> StatusCode = 404, Body = Some [] \<rparr>"
    by (simp add: world_simps)
  have u1: "newRequest (answering 500 []) sky ''PATCH'' (joinUrl sky ''u1'')
      (Some (''{\"TTL\":'' @ Itoa_nat (unat (30 :: 32 word)) @ ''}'')) = Return (Inr ?upd)"
    unfolding ttl by (simp add: world_simps)
  have u2: "Do (answering 500 []) ?upd = Inr \<lparr> StatusCode = 500, Body = Some [] \<rparr>"
    by (simp add: world_simps)
  show ?thesis
    using Delete_Update_ignore_status [of "answering 404 []" sky "''u1''" ?del
        "\<lparr> StatusCode = 404, Body = Some [] \<rparr>"]
      Delete_Update_ignore_status [of "answering 500 []" sky "''u1''" _ _ 30 ?upd
        "\<lparr> StatusCode = 500, Body = Some [] \<rparr>"]
      d1 d2 u1 u2
    by simp
qed

text \<open>C6: when the callback is encoded, the request is built and the round trip yields a
  response, \<^verbatim>\<open>AddCallback\<close> returns nil on status 201, the service-not-found sentinel on
  404, and the invalid-response sentinel on any other status.\<close>

theorem AddCallback_status_mapping:
  assumes "EncodeCallback w cb = Inr buf"
    and "newRequest w c ''PUT'' (base c @ ''/skydns/callbacks/'' @ uuid) (Some buf)
           = Return (Inr req)"
    and "Do w req = Inr resp"
  shows "AddCallback w c uuid cb =
     Return (if StatusCode resp = 201 then None
             else if StatusCode resp = 404 then Some ErrServiceNotFound
             else Some ErrInvalidResponse)"
  using assms by (simp add: AddCallback_def StatusCreated_def StatusNotFound_def)

theorem AddCallback_status_mapping_witness:
  "AddCallback (answering 201 []) sky ''u1'' (Some ''{}'') = Return None
   \<and> AddCallback (answering 404 []) sky ''u1'' (Some ''{}'') = Return (Some ErrServiceNotFound)
   \<and> AddCallback (answering 200 []) sky ''u1'' (Some ''{}'') = Return (Some ErrInvalidResponse)"
proof -
  let ?req = "\<lparr> Method = ''PUT'', URL = ''http://10.0.0.1:8080/skydns/callbacks/u1'',
                Header = [(''Authorization'', ''key'')], ReqBody = Some ''{}'' \<rparr>"
  have enc: "EncodeCallback (answering n []) (Some ''{}'') = Inr ''{}''" for n
    by (simp add: world_simps)
  have rq: "newRequest (answering n []) sky ''PUT'' (base sky @ ''/skydns/callbacks/'' @ ''u1'')
      (Some ''{}'') = Return (Inr ?req)" for n
    by (simp add: world_simps)
  have rt: "Do (answering n []) ?req = Inr \<lparr> StatusCode = n, Body = Some [] \<rparr>" for n
    by (simp add: world_simps)
  show ?thesis
    using AddCallback_status_mapping [OF enc rq rt, of 201]
      AddCallback_status_mapping [OF enc rq rt, of 404]
      AddCallback_status_mapping [OF enc rq rt, of 200]
    by simp
qed

subsection \<open>The DNS region query\<close>

text \<open>C7: when the DNS exchange of \<^verbatim>\<open>GetRegionsDNS\<close> succeeds, the mapping returned is
  empty, whatever the reply holds, and the error returned is nil.\<close>

theorem GetRegionsDNS_returns_empty:
  assumes "newRequestDNS w ''regions'' TypeSRV = Inr req"
    and "Exchange w req (basedns c) = Inr resp"
  shows "GetRegionsDNS w c = Return (Inr Map.empty)"
  using assms by (simp add: GetRegionsDNS_def)

theorem GetRegionsDNS_returns_empty_witness:
  "Exchange (answering 0 ''regions. 30 IN SRV 10 100 80 east.'')
      \<lparr> MsgId = 7, RecursionDesired = True,
        Questions = [\<lparr> Name = ''regions'', Qtype = 33, Qclass = 1 \<rparr>], Answer = [] \<rparr>
      (basedns sky)
     = Inr \<lparr> MsgId = 7, RecursionDesired = True,
             Questions = [\<lparr> Name = ''regions'', Qtype = 33, Qclass = 1 \<rparr>],
             Answer = [''regions. 30 IN SRV 10 100 80 east.''] \<rparr>
   \<and> GetRegionsDNS (answering 0 ''regions. 30 IN SRV 10 100 80 east.'') sky
        = Return (Inr Map.empty)"
proof -
  let ?w = "answering 0 ''regions. 30 IN SRV 10 100 80 east.''"
  let ?q = "\<lparr> MsgId = 7, RecursionDesired = True,
        Questions = [\<lparr> Name = ''regions'', Qtype = 33, Qclass = 1 \<rparr>], Answer = [] \<rparr>"
  have rq: "newRequestDNS ?w ''regions'' TypeSRV = Inr ?q"
    by (simp add: newRequestDNS_def TypeSRV_def ClassINET_def world_simps)
  have ex: "Exchange ?w ?q (basedns sky) = Inr (?q \<lparr> Answer := [''regions. 30 IN SRV 10 100 80 east.''] \<rparr>)"
    by (simp add: world_simps)
  show ?thesis
    using GetRegionsDNS_returns_empty [OF rq ex] ex by simp
qed

subsection \<open>The request builder on a construction error\<close>

text \<open>C9: when \<^verbatim>\<open>http.NewRequest\<close> fails, \<^verbatim>\<open>newRequest\<close> hands its error on unchanged only
  for a client without a secret. With a secret configured it writes the header of the
  nil request first and panics, so the error never reaches the caller.\<close>

theorem newRequest_construction_error:
  assumes "http_NewRequest w method url body = Inl e"
  shows "newRequest w c method url body =
     (if secret c = [] then Return (Inl e) else Panic NilPointerDereference)"
  using assms by (simp add: newRequest_def)

theorem newRequest_construction_error_witness:
  "http_NewRequest (answering 200 []) ''GET'' (joinUrl sky ''%zz'') None
      = Inl (ExtError ''invalid URL escape'')
   \<and> secret sky = ''key''
   \<and> newRequest (answering 200 []) sky ''GET'' (joinUrl sky ''%zz'') None
      = Panic NilPointerDereference"
proof -
  have bad: "http_NewRequest (answering 200 []) ''GET'' (joinUrl sky ''%zz'') None
      = Inl (ExtError ''invalid URL escape'')"
    by (simp add: answering_def joinUrl_def sky_def)
  show ?thesis
    using newRequest_construction_error [OF bad, of sky] bad by (simp add: sky_def)
qed

end
